theory Spec2Isabelle
  imports Main "HOL-Library.Word"
begin

section \<open>JavaScript values\<close>

text \<open>
  The front end handles the back end's JSON replies as values of type \<open>any\<close>. They are
  modelled by one datatype. A string is the list of the bytes of its UTF-8 encoding. A
  number is kept by its canonical rendering (what \<open>String(n)\<close> gives): the program never
  computes with a number it has received, it only tests it for truth and prints it. An
  object is an association list, read with \<open>map_of\<close>: the first pair of a name is its
  member.
\<close>

datatype jsval =
    Undefined
  | Null
  | Bool bool
  | Num string
  | Str string
  | Arr "jsval list"
  | Obj "(string \<times> jsval) list"

text \<open>
  What a \<open>throw\<close> carries: the two built-in exceptions the program can meet (\<open>TypeError\<close>
  from a member read on \<open>null\<close> or \<open>undefined\<close>, from a call of a missing method and from
  a rejected \<open>fetch\<close>; \<open>SyntaxError\<close> from \<open>res.json()\<close> on a body that is not JSON), or a
  value thrown by the program itself.
\<close>

datatype exn = TypeError | SyntaxError | Thrown jsval

definition and_then :: "exn + 'a \<Rightarrow> ('a \<Rightarrow> exn + 'b) \<Rightarrow> exn + 'b" where
  "and_then r f = (case r of Inl e \<Rightarrow> Inl e | Inr v \<Rightarrow> f v)"

text \<open>\<open>if (v)\<close>, \<open>!v\<close>, \<open>a || b\<close>: the truth of a value.\<close>

fun truthy :: "jsval \<Rightarrow> bool" where
  "truthy Undefined = False"
| "truthy Null = False"
| "truthy (Bool b) = b"
| "truthy (Num s) = (s \<noteq> ''0'' \<and> s \<noteq> ''NaN'')"
| "truthy (Str s) = (s \<noteq> [])"
| "truthy (Arr xs) = True"
| "truthy (Obj kvs) = True"

definition js_or :: "jsval \<Rightarrow> jsval \<Rightarrow> jsval" where
  "js_or a b = (if truthy a then a else b)"

text \<open>
  \<open>v.k\<close>: a member read throws on \<open>null\<close> and \<open>undefined\<close>, finds the member of an object
  or gives \<open>undefined\<close>. None of the member names the program reads is a method or
  property of the built-in prototypes, so a string, number, boolean or array has none
  of them.
\<close>

fun member :: "jsval \<Rightarrow> string \<Rightarrow> exn + jsval" where
  "member Undefined k = Inl TypeError"
| "member Null k = Inl TypeError"
| "member (Obj kvs) k = Inr (case map_of kvs k of None \<Rightarrow> Undefined | Some v \<Rightarrow> v)"
| "member v k = Inr Undefined"

text \<open>\<open>v?.k\<close>: optional chaining gives \<open>undefined\<close> where \<open>v.k\<close> would throw.\<close>

definition opt_member :: "jsval \<Rightarrow> string \<Rightarrow> jsval" where
  "opt_member v k = (case member v k of Inl e \<Rightarrow> Undefined | Inr x \<Rightarrow> x)"

text \<open>
  The conversion of a value to a string, as a template literal, \<open>+=\<close> on a string,
  \<open>new URLSearchParams\<close> and \<open>new Date\<close> apply it. It throws a \<open>TypeError\<close> on an object
  that has a member \<open>toString\<close> of its own: a value read from JSON holds no function,
  so that member is not callable, and \<open>valueOf\<close> gives back the object. \<open>printable\<close>
  says that the conversion does not throw, \<open>js_string\<close> is the text it then gives, and
  \<open>to_string\<close> is the conversion. An array prints its elements separated by commas,
  \<open>null\<close> and \<open>undefined\<close> elements as nothing.
\<close>

fun join_with :: "string \<Rightarrow> string list \<Rightarrow> string" where
  "join_with sep [] = []"
| "join_with sep [x] = x"
| "join_with sep (x # y # ys) = x @ sep @ join_with sep (y # ys)"

fun js_string :: "jsval \<Rightarrow> string" where
  "js_string Undefined = ''undefined''"
| "js_string Null = ''null''"
| "js_string (Bool b) = (if b then ''true'' else ''false'')"
| "js_string (Num s) = s"
| "js_string (Str s) = s"
| "js_string (Arr xs) =
     join_with '','' (map (\<lambda>x. if x = Undefined \<or> x = Null then [] else js_string x) xs)"
| "js_string (Obj kvs) = ''[object Object]''"

fun printable :: "jsval \<Rightarrow> bool"
  and printable_all :: "jsval list \<Rightarrow> bool" where
  "printable (Obj kvs) = (map_of kvs ''toString'' = None)"
| "printable (Arr xs) = printable_all xs"
| "printable Undefined = True"
| "printable Null = True"
| "printable (Bool b) = True"
| "printable (Num s) = True"
| "printable (Str s) = True"
| "printable_all [] = True"
| "printable_all (x # xs) = (printable x \<and> printable_all xs)"

definition to_string :: "jsval \<Rightarrow> exn + string" where
  "to_string v = (if printable v then Inr (js_string v) else Inl TypeError)"

text \<open>A parameter with a default value: \<open>undefined\<close> takes the default.\<close>

definition default_arg :: "jsval \<Rightarrow> jsval \<Rightarrow> jsval" where
  "default_arg v d = (if v = Undefined then d else v)"

subsection \<open>\<open>String.prototype.trim\<close>\<close>

text \<open>
  The white space and line terminators of ECMAScript, each as its UTF-8 bytes:
  U+0009 to U+000D, U+0020, U+00A0, U+1680, U+2000 to U+200A, U+2028, U+2029, U+202F,
  U+205F, U+3000 and U+FEFF.
\<close>

definition white_space :: "string list" where
  "white_space =
     [[CHR 0x09], [CHR 0x0A], [CHR 0x0B], [CHR 0x0C], [CHR 0x0D], [CHR 0x20],
      [CHR 0xC2, CHR 0xA0], [CHR 0xE1, CHR 0x9A, CHR 0x80]]
     @ map (\<lambda>c. [CHR 0xE2, CHR 0x80, c])
         [CHR 0x80, CHR 0x81, CHR 0x82, CHR 0x83, CHR 0x84, CHR 0x85, CHR 0x86, CHR 0x87,
          CHR 0x88, CHR 0x89, CHR 0x8A, CHR 0xA8, CHR 0xA9, CHR 0xAF]
     @ [[CHR 0xE2, CHR 0x81, CHR 0x9F], [CHR 0xE3, CHR 0x80, CHR 0x80],
        [CHR 0xEF, CHR 0xBB, CHR 0xBF]]"

fun drop_token :: "string list \<Rightarrow> string \<Rightarrow> string option" where
  "drop_token [] s = None"
| "drop_token (w # ws) s =
     (if w \<noteq> [] \<and> take (length w) s = w then Some (drop (length w) s)
      else drop_token ws s)"

function drop_tokens :: "string list \<Rightarrow> string \<Rightarrow> string" where
  "drop_tokens ws s = (case drop_token ws s of None \<Rightarrow> s | Some r \<Rightarrow> drop_tokens ws r)"
  by pat_completeness auto
termination
proof (relation "measure (\<lambda>(ws, s). length s)")
  show "wf (measure (\<lambda>(ws, s). length s))" by simp
next
  fix ws :: "string list" and s r :: string
  assume "drop_token ws s = Some r"
  then have "length r < length s"
  proof (induction ws)
    case Nil
    then show ?case by simp
  next
    case (Cons w ws)
    show ?case
    proof (cases "w \<noteq> [] \<and> take (length w) s = w")
      case True
      with Cons.prems have r: "r = drop (length w) s" by simp
      from True have "length w \<le> length s"
        by (metis length_take min.cobounded1)
      with True r show ?thesis by (cases w) auto
    next
      case False
      with Cons show ?thesis by auto
    qed
  qed
  then show "((ws, r), (ws, s)) \<in> measure (\<lambda>(ws, s). length s)" by simp
qed

definition trimStart :: "string \<Rightarrow> string" where
  "trimStart s = drop_tokens white_space s"

definition trimEnd :: "string \<Rightarrow> string" where
  "trimEnd s = rev (drop_tokens (map rev white_space) (rev s))"

definition trim :: "string \<Rightarrow> string" where
  "trim s = trimEnd (trimStart s)"

section \<open>The API client (\<open>src/lib/apis/atlassian/index.ts\<close>)\<close>

text \<open>
  A request as \<open>fetch\<close> receives it. The body is kept as the value handed to
  \<open>JSON.stringify\<close>. The network is a parameter: \<open>server\<close> answers a request, given the
  requests sent before it, with a network failure (the promise of \<open>fetch\<close> rejects with a
  \<open>TypeError\<close>) or a response, of which the program reads \<open>ok\<close> and \<open>json()\<close>; the body is
  \<open>None\<close> when it is not JSON. Every call of \<open>fetch\<close> is recorded in the list of requests
  sent.
\<close>

record request =
  req_method :: string
  req_url :: string
  req_headers :: "(string \<times> string) list"
  req_json :: "jsval option"

datatype reply = NetworkFailure | Response bool "jsval option"

type_synonym server = "request list \<Rightarrow> request \<Rightarrow> reply"

definition fetch :: "server \<Rightarrow> request \<Rightarrow> request list \<Rightarrow> reply \<times> request list" where
  "fetch server req sent = (server sent req, sent @ [req])"

text \<open>
  Every method of the client ends with the same text:
  \<^verbatim>\<open>
  .then(async (res) => { if (!res.ok) throw await res.json(); return res.json(); })
  .catch((err) => { console.error(err); error = err.detail; return null; });
  if (error) { throw error; }
  return res;
  \<close>
  \<open>json_or_throw\<close> is the \<open>then\<close> handler (a rejected \<open>fetch\<close> skips it), \<open>err_detail\<close> is the
  read \<open>err.detail\<close> of the \<open>catch\<close> handler and \<open>settle\<close> is what the method returns or
  throws. Console output is not modelled. The arguments of \<open>fetch\<close> are built first: a
  template literal of the URL or of the \<open>Authorization\<close> header that throws ends the
  method with that \<open>TypeError\<close> before anything is sent.
\<close>

definition json_or_throw :: "reply \<Rightarrow> exn + jsval" where
  "json_or_throw r =
     (case r of
        NetworkFailure \<Rightarrow> Inl TypeError
      | Response ok parsed \<Rightarrow>
          (case parsed of
             None \<Rightarrow> Inl SyntaxError
           | Some v \<Rightarrow> if \<not> ok then Inl (Thrown v) else Inr v))"

definition err_detail :: "exn \<Rightarrow> exn + jsval" where
  "err_detail err =
     (case err of
        TypeError \<Rightarrow> Inr Undefined
      | SyntaxError \<Rightarrow> Inr Undefined
      | Thrown v \<Rightarrow> member v ''detail'')"

definition settle :: "reply \<Rightarrow> exn + jsval" where
  "settle r =
     (case json_or_throw r of
        Inr res \<Rightarrow> Inr res
      | Inl err \<Rightarrow>
          (case err_detail err of
             Inl e \<Rightarrow> Inl e
           | Inr error \<Rightarrow> if truthy error then Inl (Thrown error) else Inr Null))"

definition ATLASSIAN_BASE_URL :: "string \<Rightarrow> string" where
  "ATLASSIAN_BASE_URL WEBUI_API_BASE_URL = WEBUI_API_BASE_URL @ ''/atlassian''"

definition json_headers :: "jsval \<Rightarrow> (string \<times> string) list" where
  "json_headers token =
     [(''Accept'', ''application/json''), (''Content-Type'', ''application/json''),
      (''Authorization'', ''Bearer '' @ js_string token)]"

definition accept_headers :: "jsval \<Rightarrow> (string \<times> string) list" where
  "accept_headers token =
     [(''Accept'', ''application/json''), (''Authorization'', ''Bearer '' @ js_string token)]"

definition call :: "server \<Rightarrow> request \<Rightarrow> request list \<Rightarrow> (exn + jsval) \<times> request list" where
  "call server req sent = (let (r, sent') = fetch server req sent in (settle r, sent'))"

definition call_if ::
  "bool \<Rightarrow> server \<Rightarrow> request \<Rightarrow> request list \<Rightarrow> (exn + jsval) \<times> request list" where
  "call_if arguments_built server req sent =
     (if arguments_built then call server req sent else (Inl TypeError, sent))"

definition getAtlassianConnectionStatus ::
  "string \<Rightarrow> server \<Rightarrow> jsval \<Rightarrow> request list \<Rightarrow> (exn + jsval) \<times> request list" where
  "getAtlassianConnectionStatus base server token =
     call_if (printable token) server \<lparr>req_method = ''GET'',
       req_url = ATLASSIAN_BASE_URL base @ ''/connection/status'',
       req_headers = json_headers token, req_json = None\<rparr>"

definition handleAtlassianCallback ::
  "string \<Rightarrow> server \<Rightarrow> jsval \<Rightarrow> jsval \<Rightarrow> request list \<Rightarrow> (exn + jsval) \<times> request list" where
  "handleAtlassianCallback base server token callbackData =
     call_if (printable token) server \<lparr>req_method = ''POST'',
       req_url = ATLASSIAN_BASE_URL base @ ''/connection/callback'',
       req_headers = json_headers token, req_json = Some callbackData\<rparr>"

definition disconnectAtlassian ::
  "string \<Rightarrow> server \<Rightarrow> jsval \<Rightarrow> request list \<Rightarrow> (exn + jsval) \<times> request list" where
  "disconnectAtlassian base server token =
     call_if (printable token) server \<lparr>req_method = ''DELETE'',
       req_url = ATLASSIAN_BASE_URL base @ ''/connection'',
       req_headers = json_headers token, req_json = None\<rparr>"

definition getAtlassianSites ::
  "string \<Rightarrow> server \<Rightarrow> jsval \<Rightarrow> request list \<Rightarrow> (exn + jsval) \<times> request list" where
  "getAtlassianSites base server token =
     call_if (printable token) server \<lparr>req_method = ''GET'',
       req_url = ATLASSIAN_BASE_URL base @ ''/sites'',
       req_headers = json_headers token, req_json = None\<rparr>"

definition searchJiraIssues ::
  "string \<Rightarrow> server \<Rightarrow> jsval \<Rightarrow> jsval \<Rightarrow> jsval \<Rightarrow> jsval \<Rightarrow> request list
     \<Rightarrow> (exn + jsval) \<times> request list" where
  "searchJiraIssues base server token siteId query maxResults =
     call_if (printable token) server \<lparr>req_method = ''POST'',
       req_url = ATLASSIAN_BASE_URL base @ ''/search/jira'',
       req_headers = json_headers token,
       req_json = Some (Obj [(''site_id'', siteId), (''query'', query),
                             (''max_results'', default_arg maxResults (Num ''10''))])\<rparr>"

definition getConfluenceSpaces ::
  "string \<Rightarrow> server \<Rightarrow> jsval \<Rightarrow> jsval \<Rightarrow> request list \<Rightarrow> (exn + jsval) \<times> request list" where
  "getConfluenceSpaces base server token siteId =
     call_if (printable siteId \<and> printable token) server \<lparr>req_method = ''GET'',
       req_url = ATLASSIAN_BASE_URL base @ ''/confluence/'' @ js_string siteId @ ''/spaces'',
       req_headers = accept_headers token, req_json = None\<rparr>"

definition searchConfluencePages ::
  "string \<Rightarrow> server \<Rightarrow> jsval \<Rightarrow> jsval \<Rightarrow> jsval \<Rightarrow> jsval \<Rightarrow> jsval \<Rightarrow> request list
     \<Rightarrow> (exn + jsval) \<times> request list" where
  "searchConfluencePages base server token siteId query spaceKey maxResults =
     call_if (printable token) server \<lparr>req_method = ''POST'',
       req_url = ATLASSIAN_BASE_URL base @ ''/search/confluence'',
       req_headers = json_headers token,
       req_json = Some (Obj [(''site_id'', siteId), (''query'', query),
                             (''space_key'', spaceKey),
                             (''max_results'', default_arg maxResults (Num ''10''))])\<rparr>"

definition getJiraIssue ::
  "string \<Rightarrow> server \<Rightarrow> jsval \<Rightarrow> jsval \<Rightarrow> jsval \<Rightarrow> request list
     \<Rightarrow> (exn + jsval) \<times> request list" where
  "getJiraIssue base server token siteId issueKey =
     call_if (printable siteId \<and> printable issueKey \<and> printable token) server \<lparr>req_method = ''GET'',
       req_url = ATLASSIAN_BASE_URL base @ ''/jira/'' @ js_string siteId @ ''/issue/''
                 @ js_string issueKey,
       req_headers = accept_headers token, req_json = None\<rparr>"

definition getConfluenceContent ::
  "string \<Rightarrow> server \<Rightarrow> jsval \<Rightarrow> jsval \<Rightarrow> jsval \<Rightarrow> request list
     \<Rightarrow> (exn + jsval) \<times> request list" where
  "getConfluenceContent base server token siteId contentId =
     call_if (printable siteId \<and> printable contentId \<and> printable token) server \<lparr>req_method = ''GET'',
       req_url = ATLASSIAN_BASE_URL base @ ''/confluence/'' @ js_string siteId @ ''/content/''
                 @ js_string contentId,
       req_headers = accept_headers token, req_json = None\<rparr>"

subsection \<open>The authorization URL and the state parameter\<close>

text \<open>
  \<open>URLSearchParams.toString\<close> is the platform's: the \<open>application/x-www-form-urlencoded\<close>
  serialiser of the URL Standard, on the UTF-8 bytes of each name and value. A space
  becomes \<open>+\<close>, the ASCII letters and digits and \<open>* - . _\<close> stay, every other byte becomes
  \<open>%\<close> and two upper-case hexadecimal digits; the pairs are joined by \<open>&\<close>.
\<close>

definition urlencoded_safe :: "char \<Rightarrow> bool" where
  "urlencoded_safe c =
     (let n = (of_char c :: nat)
      in (48 \<le> n \<and> n \<le> 57) \<or> (65 \<le> n \<and> n \<le> 90) \<or> (97 \<le> n \<and> n \<le> 122)
         \<or> c = CHR ''*'' \<or> c = CHR ''-'' \<or> c = CHR ''.'' \<or> c = CHR ''_'')"

definition upper_hex :: "nat \<Rightarrow> char" where
  "upper_hex n = ''0123456789ABCDEF'' ! (n mod 16)"

definition urlencoded_byte :: "char \<Rightarrow> string" where
  "urlencoded_byte c =
     (if c = CHR '' '' then ''+''
      else if urlencoded_safe c then [c]
      else [CHR ''%'', upper_hex (of_char c div 16), upper_hex (of_char c mod 16)])"

definition urlencoded :: "string \<Rightarrow> string" where
  "urlencoded s = concat (map urlencoded_byte s)"

definition URLSearchParams_toString :: "(string \<times> string) list \<Rightarrow> string" where
  "URLSearchParams_toString params =
     join_with ''&'' (map (\<lambda>(name, v). urlencoded name @ ''='' @ urlencoded v) params)"

definition generateAtlassianOAuthURL :: "string \<Rightarrow> string \<Rightarrow> string \<Rightarrow> string \<Rightarrow> string" where
  "generateAtlassianOAuthURL clientId redirectUri scope state =
     ''https://auth.atlassian.com/authorize?''
     @ URLSearchParams_toString
         [(''audience'', ''api.atlassian.com''),
          (''client_id'', clientId),
          (''scope'', scope),
          (''redirect_uri'', redirectUri),
          (''state'', state),
          (''response_type'', ''code''),
          (''prompt'', ''consent'')]"

text \<open>
  \<open>crypto.getRandomValues\<close> fills the array it is given; where the bytes come from is the
  parameter \<open>entropy\<close> (the byte for each index). \<open>byte.toString(16)\<close> gives one or two
  lower-case digits and \<open>padStart(2, '0')\<close> makes them two.
\<close>

definition getRandomValues :: "(nat \<Rightarrow> 8 word) \<Rightarrow> 8 word list \<Rightarrow> 8 word list" where
  "getRandomValues entropy array = map entropy [0..<length array]"

definition lower_hex :: "nat \<Rightarrow> char" where
  "lower_hex n = ''0123456789abcdef'' ! (n mod 16)"

definition toString16 :: "8 word \<Rightarrow> string" where
  "toString16 byte =
     (if unat byte < 16 then [lower_hex (unat byte)]
      else [lower_hex (unat byte div 16), lower_hex (unat byte mod 16)])"

definition padStart :: "nat \<Rightarrow> char \<Rightarrow> string \<Rightarrow> string" where
  "padStart n c s = replicate (n - length s) c @ s"

definition generateOAuthState :: "(nat \<Rightarrow> 8 word) \<Rightarrow> string" where
  "generateOAuthState entropy =
     concat (map (\<lambda>byte. padStart 2 (CHR ''0'') (toString16 byte))
                 (getRandomValues entropy (replicate 32 0)))"

section \<open>The browser\<close>

text \<open>
  What the components read and change outside themselves: \<open>localStorage\<close>, the path and
  query of \<open>window.location\<close>, the requests sent, and, in order, the visible effects
  (toasts, writes to \<open>localStorage\<close>, navigation). A toast is recorded by the key given to
  the translation function \<open>$i18n.t\<close> and by its \<open>{error}\<close> parameter: a text, or the caught
  exception it is computed from (\<open>error.message || error\<close>).
\<close>

datatype event =
    ToastError string
  | ToastErrorText string string
  | ToastErrorExn string exn
  | ToastSuccess string
  | SetItem string string
  | RemoveItem string
  | Navigate string
  | ReplaceUrl string
  | Reload

record browser =
  storage :: "string \<Rightarrow> string option"
  pathname :: string
  query :: "(string \<times> string) list"
  sent :: "request list"
  events :: "event list"

definition toast :: "event \<Rightarrow> 'a browser_scheme \<Rightarrow> 'a browser_scheme" where
  "toast e b = b\<lparr>events := events b @ [e]\<rparr>"

text \<open>\<open>localStorage.getItem(k)\<close> gives \<open>null\<close> for a missing key, \<open>localStorage.token\<close> gives
  \<open>undefined\<close>.\<close>

definition getItem :: "string \<Rightarrow> 'a browser_scheme \<Rightarrow> jsval" where
  "getItem k b = (case storage b k of None \<Rightarrow> Null | Some v \<Rightarrow> Str v)"

definition setItem :: "string \<Rightarrow> string \<Rightarrow> 'a browser_scheme \<Rightarrow> 'a browser_scheme" where
  "setItem k v b = b\<lparr>storage := (storage b)(k \<mapsto> v), events := events b @ [SetItem k v]\<rparr>"

definition removeItem :: "string \<Rightarrow> 'a browser_scheme \<Rightarrow> 'a browser_scheme" where
  "removeItem k b = b\<lparr>storage := (storage b)(k := None), events := events b @ [RemoveItem k]\<rparr>"

definition localStorage_token :: "'a browser_scheme \<Rightarrow> jsval" where
  "localStorage_token b = (case storage b ''token'' of None \<Rightarrow> Undefined | Some v \<Rightarrow> Str v)"

text \<open>\<open>new URLSearchParams(window.location.search).get(k)\<close>: the first value of \<open>k\<close>, or
  \<open>null\<close>.\<close>

definition get_param :: "'a browser_scheme \<Rightarrow> string \<Rightarrow> jsval" where
  "get_param b k = (case map_of (query b) k of None \<Rightarrow> Null | Some v \<Rightarrow> Str v)"

text \<open>\<open>window.location.href = url\<close> leaves the page.\<close>

definition navigate :: "string \<Rightarrow> 'a browser_scheme \<Rightarrow> 'a browser_scheme" where
  "navigate href b = b\<lparr>events := events b @ [Navigate href]\<rparr>"

text \<open>\<open>goto(path, { replaceState: true })\<close> and
  \<open>window.history.replaceState({}, document.title, window.location.pathname)\<close>: the URL
  becomes the path alone.\<close>

definition goto :: "string \<Rightarrow> 'a browser_scheme \<Rightarrow> 'a browser_scheme" where
  "goto path b = b\<lparr>pathname := path, query := [], events := events b @ [ReplaceUrl path]\<rparr>"

definition replaceState_pathname :: "'a browser_scheme \<Rightarrow> 'a browser_scheme" where
  "replaceState_pathname b = b\<lparr>query := [], events := events b @ [ReplaceUrl (pathname b)]\<rparr>"

definition reload :: "'a browser_scheme \<Rightarrow> 'a browser_scheme" where
  "reload b = b\<lparr>events := events b @ [Reload]\<rparr>"

section \<open>The connection panel (\<open>src/lib/components/common/AtlassianConnection.svelte\<close>)\<close>

record panel = browser +
  config :: jsval
  loading :: bool
  connectionStatus :: jsval

text \<open>The reactive declarations, recomputed from \<open>config\<close>.\<close>

definition atlassianEnabled :: "panel \<Rightarrow> jsval" where
  "atlassianEnabled p =
     js_or (opt_member (opt_member (config p) ''features'') ''enable_atlassian_integration'')
           (Bool False)"

definition clientId :: "panel \<Rightarrow> jsval" where
  "clientId p = js_or (opt_member (opt_member (config p) ''atlassian'') ''client_id'') (Str [])"

definition redirectUri :: "panel \<Rightarrow> jsval" where
  "redirectUri p =
     js_or (opt_member (opt_member (config p) ''atlassian'') ''redirect_uri'') (Str [])"

definition scope :: "panel \<Rightarrow> jsval" where
  "scope p =
     js_or (opt_member (opt_member (config p) ''atlassian'') ''oauth_scope'')
       (Str ''read:jira-user read:jira-work read:confluence-content.all offline_access'')"

definition loadConnectionStatus :: "string \<Rightarrow> server \<Rightarrow> panel \<Rightarrow> panel" where
  "loadConnectionStatus base server p =
     (if \<not> truthy (atlassianEnabled p) then p
      else
        (let p1 = p\<lparr>loading := True\<rparr>;
             (r, sent') = getAtlassianConnectionStatus base server (localStorage_token p1) (sent p1);
             p2 = p1\<lparr>sent := sent'\<rparr>;
             p3 = (case r of
                     Inr status \<Rightarrow> p2\<lparr>connectionStatus := status\<rparr>
                   | Inl error \<Rightarrow>
                       toast (ToastError ''Failed to load Atlassian connection status'') p2)
         in p3\<lparr>loading := False\<rparr>))"

text \<open>
  \<open>new URLSearchParams\<close> converts the client id, the scope and the redirect URI to
  strings; when one of them cannot be converted the exception ends the click handler
  after the state is stored and before any navigation.
\<close>

definition handleConnect :: "(nat \<Rightarrow> 8 word) \<Rightarrow> panel \<Rightarrow> panel" where
  "handleConnect entropy p =
     (if \<not> truthy (clientId p) \<or> \<not> truthy (redirectUri p)
      then toast (ToastError ''Atlassian integration is not properly configured'') p
      else
        (let state = generateOAuthState entropy;
             p1 = setItem ''atlassian_oauth_state'' state p
         in if printable (clientId p1) \<and> printable (scope p1) \<and> printable (redirectUri p1)
            then navigate (generateAtlassianOAuthURL (js_string (clientId p1))
                             (js_string (redirectUri p1)) (js_string (scope p1)) state) p1
            else p1))"

text \<open>The panel's handler of the return from Atlassian. It does not read the stored
  state: the source says
  \<^verbatim>\<open>// Skip state verification for now since we're having issues with localStorage\<close>.\<close>

definition handleOAuthCallback_panel :: "string \<Rightarrow> server \<Rightarrow> panel \<Rightarrow> panel" where
  "handleOAuthCallback_panel base server p =
     (let code = get_param p ''code'';
          state = get_param p ''state'';
          error = get_param p ''error''
      in if truthy error \<or> truthy code then
           (if truthy error then
              replaceState_pathname
                (toast (ToastErrorText ''OAuth authentication failed: {error}'' (js_string error)) p)
            else if truthy code \<and> truthy state then
              (let p1 = p\<lparr>loading := True\<rparr>;
                   (r, sent') = handleAtlassianCallback base server (localStorage_token p1)
                                  (Obj [(''code'', code), (''state'', state)]) (sent p1);
                   p2 = p1\<lparr>sent := sent'\<rparr>;
                   p3 = (case r of
                           Inr result \<Rightarrow>
                             loadConnectionStatus base server
                               (replaceState_pathname
                                  (toast (ToastSuccess ''Atlassian account connected successfully'')
                                     p2))
                         | Inl err \<Rightarrow>
                             replaceState_pathname
                               (toast (ToastError ''Failed to connect Atlassian account'') p2))
               in p3\<lparr>loading := False\<rparr>)
            else p)
         else p)"

section \<open>The connections page (\<open>src/backend/dev.sh\<close>, lines 179 to 320)\<close>

record page = browser +
  page_config :: jsval
  page_loading :: bool

definition handleOAuthCallback_page :: "string \<Rightarrow> server \<Rightarrow> page \<Rightarrow> page" where
  "handleOAuthCallback_page base server b =
     (let code = get_param b ''code'';
          state = get_param b ''state'';
          error = get_param b ''error''
      in if truthy error then
           goto ''/settings/connections''
             (toast (ToastErrorText ''OAuth authentication failed: {error}'' (js_string error)) b)
         else if truthy code \<and> truthy state then
           (let storedState = getItem ''atlassian_oauth_state'' b
            in if state \<noteq> storedState then
                 goto ''/settings/connections''
                   (toast (ToastError ''OAuth state verification failed'') b)
               else
                 (let b1 = removeItem ''atlassian_oauth_state'' b;
                      b2 = b1\<lparr>page_loading := True\<rparr>;
                      (r, sent') = handleAtlassianCallback base server (localStorage_token b2)
                                     (Obj [(''code'', code), (''state'', state)]) (sent b2);
                      b3 = b2\<lparr>sent := sent'\<rparr>;
                      b4 = (case r of
                              Inr result \<Rightarrow>
                                reload (goto ''/settings/connections''
                                  (toast (ToastSuccess
                                     ''Atlassian account connected successfully'') b3))
                            | Inl err \<Rightarrow>
                                goto ''/settings/connections''
                                  (toast (ToastErrorExn
                                     ''Failed to connect Atlassian account: {error}'' err) b3))
                  in b4\<lparr>page_loading := False\<rparr>))
         else b)"

section \<open>The content picker (\<open>src/backend/dev.sh\<close>, from line 321)\<close>

subsection \<open>Text of a rich document\<close>

definition isArray :: "jsval \<Rightarrow> bool" where
  "isArray v = (case v of Arr xs \<Rightarrow> True | _ \<Rightarrow> False)"

definition elements :: "jsval \<Rightarrow> jsval list" where
  "elements v = (case v of Arr xs \<Rightarrow> xs | _ \<Rightarrow> [])"

definition newline :: string where
  "newline = [CHR 0x0A]"

text \<open>
  \<open>processNode\<close> appends to the variable \<open>text\<close> of the enclosing function; here it takes
  the text so far and returns the text after. \<open>forEach_child\<close> is the body of
  \<open>node.content.forEach\<close>, run on the children from left to right.
\<close>

function processNode :: "jsval \<Rightarrow> string \<Rightarrow> exn + string"
  and forEach_child :: "jsval \<Rightarrow> jsval list \<Rightarrow> string \<Rightarrow> exn + string" where
  "processNode node text =
     (case member node ''text'' of
        Inl e \<Rightarrow> Inl e
      | Inr t \<Rightarrow>
          (case member node ''content'' of
             Inl e \<Rightarrow> Inl e
           | Inr c \<Rightarrow>
               if truthy t \<and> \<not> printable t then Inl TypeError
               else if truthy c \<and> isArray c
               then forEach_child node (elements c)
                      (if truthy t then text @ js_string t else text)
               else Inr (if truthy t then text @ js_string t else text)))"
| "forEach_child node [] text = Inr text"
| "forEach_child node (child # rest) text =
     (case processNode child text of
        Inl e \<Rightarrow> Inl e
      | Inr text1 \<Rightarrow>
          forEach_child node rest
            (if member node ''type'' = Inr (Str ''paragraph'')
                \<or> member node ''type'' = Inr (Str ''heading'')
             then text1 @ newline else text1))"
  by pat_completeness auto
termination
proof (relation "measure (\<lambda>x. case x of Inl (node, acc) \<Rightarrow> size node + 1
                                  | Inr (node, cs, acc) \<Rightarrow> size_list size cs + 1)")
  show "wf (measure (\<lambda>x. case x of Inl (node, acc) \<Rightarrow> size node + 1
            | Inr (node :: jsval, cs, acc :: string) \<Rightarrow> size_list size cs + 1))"
    by simp
next
  fix node :: jsval and acc :: string and t c :: jsval
  assume "member node ''content'' = Inr c" and "truthy c \<and> isArray c"
  then obtain kvs xs where n: "node = Obj kvs" and c: "c = Arr xs" and
      m: "map_of kvs ''content'' = Some (Arr xs)"
    by (cases node; cases c) (auto simp: isArray_def split: option.splits)
  have "map_of kvs k = Some (Arr xs) \<Longrightarrow>
        size_list size xs < size_list (size_prod (\<lambda>x. 0) size) kvs" for k
    by (induction kvs) (auto split: if_splits)
  with m n c show "(Inr (node, elements c, if truthy t then acc @ js_string t else acc),
          Inl (node, acc))
       \<in> measure (\<lambda>x. case x of Inl (node, acc) \<Rightarrow> size node + 1
                                  | Inr (node, cs, acc) \<Rightarrow> size_list size cs + 1)"
    by (fastforce simp: elements_def)
qed auto

definition extractTextFromADF :: "jsval \<Rightarrow> exn + string" where
  "extractTextFromADF adf =
     (if \<not> truthy adf then Inr []
      else
        (case member adf ''content'' of
           Inl e \<Rightarrow> Inl e
         | Inr c \<Rightarrow>
             if \<not> truthy c then Inr []
             else (case processNode adf [] of
                     Inl e \<Rightarrow> Inl e
                   | Inr text \<Rightarrow> Inr (trim text))))"

subsection \<open>\<open>String.prototype.replace\<close>\<close>

text \<open>
  \<open>s.replace(/<[^>]*>/g, '')\<close>: from left to right, a \<open><\<close> with a \<open>>\<close> somewhere after it
  is removed together with everything up to the first such \<open>>\<close>; a \<open><\<close> with no \<open>>\<close>
  after it stays.
\<close>

function strip_tags :: "string \<Rightarrow> string" where
  "strip_tags [] = []"
| "strip_tags (c # cs) =
     (if c = CHR ''<'' \<and> CHR ''>'' \<in> set cs
      then strip_tags (tl (dropWhile (\<lambda>d. d \<noteq> CHR ''>'') cs))
      else c # strip_tags cs)"
  by pat_completeness auto
termination
  by (relation "measure length")
     (auto simp: less_Suc_eq_le intro: le_trans [OF diff_le_self length_dropWhile_le])

text \<open>
  \<open>s.replace(/pat/g, rep)\<close> for a pattern that is a plain, non-empty text: the
  occurrences of \<open>pat\<close>, found from left to right without overlap, become \<open>rep\<close>.
\<close>

fun replace_all :: "string \<Rightarrow> string \<Rightarrow> string \<Rightarrow> string" where
  "replace_all pat rep [] = []"
| "replace_all pat rep (c # cs) =
     (if pat \<noteq> [] \<and> take (length pat) (c # cs) = pat
      then rep @ replace_all pat rep (drop (length pat) (c # cs))
      else c # replace_all pat rep cs)"

definition html_to_text :: "string \<Rightarrow> string" where
  "html_to_text bodyContent =
     replace_all ''&gt;'' ''>''
       (replace_all ''&lt;'' ''<''
          (replace_all ''&amp;'' ''&''
             (replace_all ''&nbsp;'' '' ''
                (strip_tags bodyContent))))"

subsection \<open>State of the picker\<close>

datatype content_type = Jira | Confluence

text \<open>
  The variables of the component, under their names in the source (\<open>show\<close> and \<open>loading\<close>
  are \<open>picker_show\<close> and \<open>picker_loading\<close>). \<open>selections\<close> holds the arguments of the calls
  of the \<open>onSelect\<close> callback: the content and the metadata.
\<close>

record picker = browser +
  picker_show :: bool
  picker_loading :: bool
  searchQuery :: string
  selectedSite :: jsval
  selectedType :: content_type
  searchResults :: jsval
  sites :: jsval
  connected :: jsval
  noConfluenceAccess :: bool
  confluenceSpaces :: jsval
  selectedSpace :: jsval
  loadingSpaces :: bool
  selections :: "(string \<times> jsval) list"

definition loadConfluenceSpaces :: "string \<Rightarrow> server \<Rightarrow> picker \<Rightarrow> picker" where
  "loadConfluenceSpaces base server m =
     (if \<not> truthy (selectedSite m) \<or> selectedType m \<noteq> Confluence then m
      else
        (let m1 = m\<lparr>loadingSpaces := True, confluenceSpaces := Arr [], selectedSpace := Null\<rparr>;
             m2 = (case member (selectedSite m1) ''id'' of
                     Inl e \<Rightarrow> m1\<lparr>confluenceSpaces := Arr [], selectedSpace := Null\<rparr>
                   | Inr siteId \<Rightarrow>
                       (let (r, sent') = getConfluenceSpaces base server (localStorage_token m1)
                                           siteId (sent m1);
                            m' = m1\<lparr>sent := sent'\<rparr>
                        in case and_then r (\<lambda>result.
                                and_then (member result ''error'') (\<lambda>err.
                                and_then (member result ''results'') (\<lambda>results.
                                  Inr (err, results)))) of
                             Inl e \<Rightarrow> m'\<lparr>confluenceSpaces := Arr [], selectedSpace := Null\<rparr>
                           | Inr (err, results) \<Rightarrow>
                               if err = Str ''no_access''
                               then m'\<lparr>confluenceSpaces := Arr [], selectedSpace := Null\<rparr>
                               else m'\<lparr>confluenceSpaces := js_or results (Arr []),
                                       selectedSpace := Null\<rparr>))
         in m2\<lparr>loadingSpaces := False\<rparr>))"

definition performSearch :: "string \<Rightarrow> server \<Rightarrow> picker \<Rightarrow> picker" where
  "performSearch base server m =
     (if trim (searchQuery m) = [] \<or> \<not> truthy (selectedSite m) then m
      else
        (let m1 = m\<lparr>picker_loading := True, searchResults := Arr []\<rparr>;
             m2 = (case member (selectedSite m1) ''id'' of
                     Inl e \<Rightarrow> toast (ToastError ''Search failed'') m1
                   | Inr siteId \<Rightarrow>
                       (case selectedType m1 of
                          Jira \<Rightarrow>
                            (let (r, sent') = searchJiraIssues base server (localStorage_token m1)
                                                siteId (Str (searchQuery m1)) (Num ''20'') (sent m1);
                                 m' = m1\<lparr>sent := sent'\<rparr>
                             in case and_then r (\<lambda>result. member result ''issues'') of
                                  Inl e \<Rightarrow> toast (ToastError ''Search failed'') m'
                                | Inr issues \<Rightarrow> m'\<lparr>searchResults := js_or issues (Arr [])\<rparr>)
                        | Confluence \<Rightarrow>
                            (let (r, sent') = searchConfluencePages base server
                                                (localStorage_token m1) siteId
                                                (Str (searchQuery m1))
                                                (opt_member (selectedSpace m1) ''key'')
                                                (Num ''20'') (sent m1);
                                 m' = m1\<lparr>sent := sent'\<rparr>
                             in case and_then r (\<lambda>result.
                                     and_then (member result ''error'') (\<lambda>err.
                                       Inr (result, err))) of
                                  Inl e \<Rightarrow> toast (ToastError ''Search failed'') m'
                                | Inr (result, err) \<Rightarrow>
                                    if err = Str ''no_access''
                                    then m'\<lparr>noConfluenceAccess := True, searchResults := Arr []\<rparr>
                                    else
                                      (case member result ''results'' of
                                         Inl e \<Rightarrow> toast (ToastError ''Search failed'')
                                                    (m'\<lparr>noConfluenceAccess := False\<rparr>)
                                       | Inr results \<Rightarrow>
                                           m'\<lparr>noConfluenceAccess := False,
                                              searchResults := js_or results (Arr [])\<rparr>))))
         in m2\<lparr>picker_loading := False\<rparr>))"

subsection \<open>Formatting the chosen item\<close>

text \<open>The description of an issue: a text, a rich document, or \<open>No description\<close>.\<close>

definition jira_description :: "jsval \<Rightarrow> exn + string" where
  "jira_description d =
     (if truthy d then
        (case d of
           Str s \<Rightarrow> Inr s
         | _ \<Rightarrow> and_then (member d ''content'') (\<lambda>c.
                  if truthy c then extractTextFromADF d else Inr ''No description''))
      else Inr ''No description'')"

text \<open>
  The content built from the full issue (the Jira branch of \<open>selectItem\<close>). Every
  failure on the way is a \<open>TypeError\<close>: a member read on \<open>null\<close> or \<open>undefined\<close>, or a
  value of a template literal that cannot be converted.
\<close>

definition jira_content :: "jsval \<Rightarrow> exn + string" where
  "jira_content fullIssue =
     and_then (member fullIssue ''key'') (\<lambda>key.
     and_then (to_string key) (\<lambda>key_text.
     and_then (member fullIssue ''fields'') (\<lambda>fields.
     and_then (member fields ''summary'') (\<lambda>summary.
     and_then (to_string summary) (\<lambda>summary_text.
     and_then (member fields ''status'') (\<lambda>status.
     and_then (member status ''name'') (\<lambda>status_name.
     and_then (to_string status_name) (\<lambda>status_text.
     and_then (member fields ''issuetype'') (\<lambda>issuetype.
     and_then (member issuetype ''name'') (\<lambda>issuetype_name.
     and_then (to_string issuetype_name) (\<lambda>issuetype_text.
     and_then (member fields ''assignee'') (\<lambda>assignee.
     and_then (if truthy assignee
               then and_then (member assignee ''displayName'') (\<lambda>displayName.
                    and_then (to_string displayName) (\<lambda>displayName_text.
                      Inr (''**Assignee:** '' @ displayName_text @ newline)))
               else Inr []) (\<lambda>assignee_line.
     and_then (member fields ''priority'') (\<lambda>priority.
     and_then (if truthy priority
               then and_then (member priority ''name'') (\<lambda>priority_name.
                    and_then (to_string priority_name) (\<lambda>priority_text.
                      Inr (''**Priority:** '' @ priority_text @ newline)))
               else Inr []) (\<lambda>priority_line.
     and_then (member fields ''description'') (\<lambda>d.
     and_then (jira_description d) (\<lambda>description.
       Inr (''## ['' @ key_text @ ''] '' @ summary_text @ newline @ newline
            @ ''**Status:** '' @ status_text @ newline
            @ ''**Type:** '' @ issuetype_text @ newline
            @ assignee_line
            @ priority_line
            @ newline @ ''### Description'' @ newline @ description))))))))))))))))))"

definition jira_metadata :: "jsval \<Rightarrow> jsval \<Rightarrow> exn + jsval" where
  "jira_metadata site fullIssue =
     and_then (member fullIssue ''key'') (\<lambda>key.
     and_then (member site ''url'') (\<lambda>site_url.
     and_then (to_string site_url) (\<lambda>site_url_text.
     and_then (to_string key) (\<lambda>key_text.
     and_then (member fullIssue ''fields'') (\<lambda>fields.
     and_then (member fields ''summary'') (\<lambda>summary.
     and_then (member site ''id'') (\<lambda>site_id.
     and_then (member site ''name'') (\<lambda>site_name.
       Inr (Obj [(''type'', Str ''atlassian_jira''),
                 (''key'', key),
                 (''url'', Str (site_url_text @ ''/browse/'' @ key_text)),
                 (''title'', summary),
                 (''siteId'', site_id),
                 (''siteName'', site_name)])))))))))"

text \<open>
  The body of a page: \<open>body.storage.value\<close>, else \<open>body.value\<close>, else the empty text.
\<close>

definition page_body :: "jsval \<Rightarrow> exn + jsval" where
  "page_body fullPage =
     and_then (member fullPage ''body'') (\<lambda>body.
       if truthy body then
         and_then (member body ''storage'') (\<lambda>storage_part.
         and_then (if truthy storage_part then member storage_part ''value''
                   else Inr storage_part) (\<lambda>storage_value.
           if truthy storage_value then Inr storage_value
           else and_then (member body ''value'') (\<lambda>v.
                  if truthy v then Inr v else Inr (Str []))))
       else Inr (Str []))"

text \<open>
  What is appended for the body: its text without markup, or the notice. \<open>replace\<close> is a
  method of strings only, so the call throws on any other true value.
\<close>

definition body_text :: "jsval \<Rightarrow> exn + string" where
  "body_text bodyContent =
     (if truthy bodyContent then
        (case bodyContent of
           Str s \<Rightarrow> Inr (html_to_text s)
         | _ \<Rightarrow> Inl TypeError)
      else Inr ''No content available'')"

text \<open>
  The content built from the full page (the Confluence branch of \<open>selectItem\<close>).
  \<open>toLocaleDateString\<close> stands for \<open>new Date(updateDate).toLocaleDateString()\<close>, which
  depends on the locale of the browser; \<open>new Date\<close> converts an object or array to a
  string first.
\<close>

definition confluence_content :: "(jsval \<Rightarrow> string) \<Rightarrow> jsval \<Rightarrow> exn + string" where
  "confluence_content toLocaleDateString fullPage =
     and_then (member fullPage ''title'') (\<lambda>title.
     and_then (to_string title) (\<lambda>title_text.
     and_then (member fullPage ''space'') (\<lambda>space.
     and_then (if truthy space
               then and_then (member space ''name'') (\<lambda>name.
                    and_then (member space ''key'') (\<lambda>key.
                    and_then (to_string (js_or name key)) (\<lambda>space_text.
                      Inr (''**Space:** '' @ space_text @ newline))))
               else Inr []) (\<lambda>space_line.
     and_then (member fullPage ''version'') (\<lambda>version.
     and_then (if truthy version
               then and_then (member version ''when'') (\<lambda>when.
                    and_then (member version ''createdAt'') (\<lambda>createdAt.
                      if truthy (js_or when createdAt)
                      then (if printable (js_or when createdAt)
                            then Inr (''**Last Updated:** ''
                                      @ toLocaleDateString (js_or when createdAt)
                                      @ newline @ newline)
                            else Inl TypeError)
                      else Inr []))
               else Inr []) (\<lambda>updated_line.
     and_then (page_body fullPage) (\<lambda>bodyContent.
     and_then (body_text bodyContent) (\<lambda>rendered.
       Inr (''## '' @ title_text @ newline @ newline
            @ space_line @ updated_line @ rendered)))))))))"

definition confluence_metadata :: "jsval \<Rightarrow> jsval \<Rightarrow> exn + jsval" where
  "confluence_metadata site fullPage =
     and_then (member fullPage ''id'') (\<lambda>page_id.
     and_then (member fullPage ''_links'') (\<lambda>links.
     and_then (if truthy links then member links ''webui'' else Inr links) (\<lambda>webui.
     and_then (member site ''url'') (\<lambda>site_url.
     and_then (to_string site_url) (\<lambda>site_url_text.
     and_then (if truthy webui
               then and_then (to_string webui) (\<lambda>webui_text.
                      Inr (site_url_text @ ''/wiki'' @ webui_text))
               else and_then (to_string (js_or (opt_member (opt_member fullPage ''space'')
                                                   ''key'') (Str ''SPACE''))) (\<lambda>space_text.
                    and_then (to_string page_id) (\<lambda>page_id_text.
                      Inr (site_url_text @ ''/wiki/spaces/'' @ space_text
                           @ ''/pages/'' @ page_id_text)))) (\<lambda>url.
     and_then (member fullPage ''title'') (\<lambda>title.
     and_then (member site ''id'') (\<lambda>site_id.
     and_then (member site ''name'') (\<lambda>site_name.
       Inr (Obj [(''type'', Str ''atlassian_confluence''),
                 (''id'', page_id),
                 (''url'', Str url),
                 (''title'', title),
                 (''siteId'', site_id),
                 (''siteName'', site_name)]))))))))))"

definition selectItem ::
  "string \<Rightarrow> server \<Rightarrow> (jsval \<Rightarrow> string) \<Rightarrow> jsval \<Rightarrow> picker \<Rightarrow> picker" where
  "selectItem base server toLocaleDateString item m =
     (let m1 = m\<lparr>picker_loading := True\<rparr>;
          failed = (\<lambda>m'. toast (ToastError ''Failed to fetch content'') m');
          m2 = (case and_then (member (selectedSite m1) ''id'') (\<lambda>siteId.
                     and_then (member item (if selectedType m1 = Jira then ''key'' else ''id''))
                       (\<lambda>item_id. Inr (siteId, item_id))) of
                  Inl e \<Rightarrow> failed m1
                | Inr (siteId, item_id) \<Rightarrow>
                    (case selectedType m1 of
                       Jira \<Rightarrow>
                         (let (r, sent') = getJiraIssue base server (localStorage_token m1)
                                             siteId item_id (sent m1);
                              m' = m1\<lparr>sent := sent'\<rparr>
                          in case and_then r (\<lambda>fullIssue.
                                  and_then (jira_content fullIssue) (\<lambda>content.
                                  and_then (jira_metadata (selectedSite m') fullIssue)
                                    (\<lambda>metadata. Inr (content, metadata)))) of
                               Inl e \<Rightarrow> failed m'
                             | Inr cm \<Rightarrow> m'\<lparr>selections := selections m' @ [cm],
                                            picker_show := False\<rparr>)
                     | Confluence \<Rightarrow>
                         (let (r, sent') = getConfluenceContent base server
                                             (localStorage_token m1) siteId item_id (sent m1);
                              m' = m1\<lparr>sent := sent'\<rparr>
                          in case and_then r (\<lambda>fullPage.
                                  and_then (confluence_content toLocaleDateString fullPage)
                                    (\<lambda>content.
                                  and_then (confluence_metadata (selectedSite m') fullPage)
                                    (\<lambda>metadata. Inr (content, metadata)))) of
                               Inl e \<Rightarrow> failed m'
                             | Inr cm \<Rightarrow> m'\<lparr>selections := selections m' @ [cm],
                                            picker_show := False\<rparr>)))
      in m2\<lparr>picker_loading := False\<rparr>)"

section \<open>Vocabulary of the properties\<close>

text \<open>
  The definitions of this section are not the program's: they name what the theorems
  speak of. \<open>callback_request\<close> is the token exchange as it goes out; \<open>has_tag\<close> says
  that a text still holds a \<open><\<close> with a \<open>>\<close> after it, which is what the pattern
  \<open><[^>]*>\<close> matches; \<open>contains\<close> says that a text occurs in another.
\<close>

definition callback_request :: "string \<Rightarrow> jsval \<Rightarrow> jsval \<Rightarrow> jsval \<Rightarrow> request" where
  "callback_request base token code state =
     \<lparr>req_method = ''POST'', req_url = base @ ''/atlassian/connection/callback'',
      req_headers = json_headers token,
      req_json = Some (Obj [(''code'', code), (''state'', state)])\<rparr>"

fun has_tag :: "string \<Rightarrow> bool" where
  "has_tag [] = False"
| "has_tag (c # cs) = ((c = CHR ''<'' \<and> CHR ''>'' \<in> set cs) \<or> has_tag cs)"

text \<open>
  \<open>decode_once\<close> is the decoding of the four named entities as the specification words
  it: each entity of the text is replaced by its character, and what a replacement
  produces is not read again.
\<close>

fun decode_once :: "string \<Rightarrow> string" where
  "decode_once [] = []"
| "decode_once (c # cs) =
     (if take 6 (c # cs) = ''&nbsp;'' then CHR '' '' # decode_once (drop 5 cs)
      else if take 5 (c # cs) = ''&amp;'' then CHR ''&'' # decode_once (drop 4 cs)
      else if take 4 (c # cs) = ''&lt;'' then CHR ''<'' # decode_once (drop 3 cs)
      else if take 4 (c # cs) = ''&gt;'' then CHR ''>'' # decode_once (drop 3 cs)
      else c # decode_once cs)"

fun contains :: "string \<Rightarrow> string \<Rightarrow> bool" where
  "contains pat [] = (pat = [])"
| "contains pat (c # cs) = (take (length pat) (c # cs) = pat \<or> contains pat cs)"

text \<open>
  Reading the two encodings back, as their receivers do: \<open>form_decode\<close> for a value of
  the query, \<open>hex_decode\<close> for the state. They serve to state that an encoding loses
  nothing.
\<close>

definition hex_value :: "char \<Rightarrow> nat" where
  "hex_value c =
     (let n = (of_char c :: nat)
      in if 48 \<le> n \<and> n \<le> 57 then n - 48
         else if 65 \<le> n \<and> n \<le> 70 then n - 55
         else if 97 \<le> n \<and> n \<le> 102 then n - 87
         else 0)"

fun form_decode :: "string \<Rightarrow> string" where
  "form_decode [] = []"
| "form_decode [c] = (if c = CHR ''+'' then '' '' else [c])"
| "form_decode [c, d] =
     (if c = CHR ''+'' then CHR '' '' # form_decode [d] else c # form_decode [d])"
| "form_decode (c # h # l # rest) =
     (if c = CHR ''+'' then CHR '' '' # form_decode (h # l # rest)
      else if c = CHR ''%'' then char_of (hex_value h * 16 + hex_value l) # form_decode rest
      else c # form_decode (h # l # rest))"

fun hex_decode :: "string \<Rightarrow> 8 word list" where
  "hex_decode (h # l # rest) = of_nat (hex_value h * 16 + hex_value l) # hex_decode rest"
| "hex_decode s = []"

text \<open>The shape of a form-encoded text: safe bytes, \<open>+\<close>, and \<open>%\<close> with two upper-case digits.\<close>

definition is_upper_hex :: "char \<Rightarrow> bool" where
  "is_upper_hex c = (c \<in> set ''0123456789ABCDEF'')"

fun percent_encoded :: "string \<Rightarrow> bool" where
  "percent_encoded [] = True"
| "percent_encoded (c # cs) =
     (if c = CHR ''%''
      then (case cs of
              h # l # rest \<Rightarrow> is_upper_hex h \<and> is_upper_hex l \<and> percent_encoded rest
            | _ \<Rightarrow> False)
      else (c = CHR ''+'' \<or> urlencoded_safe c) \<and> percent_encoded cs)"

section \<open>Example states\<close>

text \<open>A configured panel, with a state left in \<open>localStorage\<close> by an earlier attempt.\<close>

definition example_panel :: panel where
  "example_panel =
     \<lparr>storage = Map.empty(''atlassian_oauth_state'' \<mapsto> ''S'', ''token'' \<mapsto> ''t''),
      pathname = ''/settings/connections'', query = [], sent = [], events = [],
      config = Obj [(''features'', Obj [(''enable_atlassian_integration'', Bool True)]),
                    (''atlassian'',
                     Obj [(''client_id'', Str ''abc''),
                          (''redirect_uri'',
                           Str ''http://localhost:5173/settings/connections'')])],
      loading = False, connectionStatus = Null\<rparr>"

text \<open>The connections page on a return whose \<open>state\<close> is not the stored one.\<close>

definition example_return :: page where
  "example_return =
     \<lparr>storage = Map.empty(''atlassian_oauth_state'' \<mapsto> ''S'', ''token'' \<mapsto> ''t''),
      pathname = ''/settings/connections'',
      query = [(''code'', ''C''), (''state'', ''S2'')], sent = [], events = [],
      page_config = Null, page_loading = False\<rparr>"

text \<open>A document of one paragraph in two runs of text, the second in bold.\<close>

definition example_doc :: jsval where
  "example_doc =
     Obj [(''type'', Str ''doc''), (''version'', Num ''1''),
          (''content'',
           Arr [Obj [(''type'', Str ''paragraph''),
                     (''content'',
                      Arr [Obj [(''type'', Str ''text''), (''text'', Str ''Hello '')],
                           Obj [(''type'', Str ''text''), (''text'', Str ''world''),
                                (''marks'', Arr [Obj [(''type'', Str ''strong'')]])]])]])]"

text \<open>An issue with no assignee, priority or description, and the same without a status.\<close>

definition example_issue :: jsval where
  "example_issue =
     Obj [(''key'', Str ''OPS-7''),
          (''fields'',
           Obj [(''summary'', Str ''Login fails''),
                (''status'', Obj [(''name'', Str ''Open'')]),
                (''issuetype'', Obj [(''name'', Str ''Bug'')]),
                (''assignee'', Null),
                (''description'', Null)])]"

definition example_issue_no_status :: jsval where
  "example_issue_no_status =
     Obj [(''key'', Str ''OPS-7''),
          (''fields'',
           Obj [(''summary'', Str ''Login fails''),
                (''issuetype'', Obj [(''name'', Str ''Bug'')])])]"

text \<open>A picker ready to search, and a back end that answers every request with the soft
  error.\<close>

definition example_picker :: picker where
  "example_picker =
     \<lparr>storage = Map.empty(''token'' \<mapsto> ''t''), pathname = ''/'', query = [],
      sent = [], events = [],
      picker_show = True, picker_loading = False, searchQuery = ''login'',
      selectedSite = Obj [(''id'', Str ''site-1''), (''name'', Str ''Acme''),
                          (''url'', Str ''https://acme.atlassian.net'')],
      selectedType = Jira, searchResults = Arr [], sites = Arr [], connected = Bool True,
      noConfluenceAccess = False, confluenceSpaces = Arr [], selectedSpace = Null,
      loadingSpaces = False, selections = []\<rparr>"

definition no_access_server :: server where
  "no_access_server = (\<lambda>rs req. Response True (Some (Obj [(''error'', Str ''no_access'')])))"

text \<open>An issue with an assignee, a priority and a description in plain text.\<close>

definition example_issue_assigned :: jsval where
  "example_issue_assigned =
     Obj [(''key'', Str ''OPS-8''),
          (''fields'',
           Obj [(''summary'', Str ''Slow search''),
                (''status'', Obj [(''name'', Str ''In Progress'')]),
                (''issuetype'', Obj [(''name'', Str ''Task'')]),
                (''assignee'', Obj [(''displayName'', Str ''Ada'')]),
                (''priority'', Obj [(''name'', Str ''High'')]),
                (''description'', Str ''Takes a minute.'')])]"


text \<open>A page in the format of the v1 API, a page without a body, and a page whose text
  shows the markup \<open><b>\<close> itself, which the storage format writes \<open>&amp;lt;b&amp;gt;\<close>.\<close>

definition example_page_escaped :: jsval where
  "example_page_escaped =
     Obj [(''id'', Str ''43''), (''title'', Str ''Escapes''),
          (''body'',
           Obj [(''storage'',
                 Obj [(''value'', Str ''<p>Write &amp;lt;b&amp;gt; for bold</p>'')])])]"

definition example_page :: jsval where
  "example_page =
     Obj [(''id'', Str ''42''), (''title'', Str ''Runbook''),
          (''body'', Obj [(''storage'', Obj [(''value'', Str ''<p>A &amp; B</p>'')])])]"

definition example_page_no_body :: jsval where
  "example_page_no_body = Obj [(''id'', Str ''42''), (''title'', Str ''Runbook'')]"

section \<open>Properties of the API client\<close>

lemma settle_ok: "settle (Response True (Some v)) = Inr v"
  by (simp add: settle_def json_or_throw_def)

lemma settle_detail:
  "map_of kvs ''detail'' = Some d \<Longrightarrow> truthy d \<Longrightarrow>
   settle (Response False (Some (Obj kvs))) = Inl (Thrown d)"
  by (simp add: settle_def json_or_throw_def err_detail_def)

lemma settle_no_detail:
  "map_of kvs ''detail'' = None \<Longrightarrow> settle (Response False (Some (Obj kvs))) = Inr Null"
  by (simp add: settle_def json_or_throw_def err_detail_def)

lemma call_sends_once: "snd (call server req rs) = rs @ [req]"
  by (simp add: call_def fetch_def)

lemma call_network_failure:
  "fst (call (\<lambda>rs req. NetworkFailure) req rs) = Inr Null"
  by (simp add: call_def fetch_def settle_def json_or_throw_def err_detail_def)

lemma call_if_network_failure:
  "fst (call_if built (\<lambda>rs req. NetworkFailure) req rs)
     = (if built then Inr Null else Inl TypeError)"
  by (simp add: call_if_def call_network_failure)

lemma call_if_sends:
  "snd (call_if built server req rs) = (if built then rs @ [req] else rs)"
  by (simp add: call_if_def call_sends_once)

lemma printable_token: "printable (localStorage_token b)"
  by (simp add: localStorage_token_def split: option.splits)

text \<open>
  C3. Claimed: a network failure surfaces from every method of the client as a raised
  failure, never as a normal return value. On the code a rejected \<open>fetch\<close> reaches the
  \<open>catch\<close> handler with a \<open>TypeError\<close>, which has no \<open>detail\<close>, so \<open>error\<close> stays
  \<open>undefined\<close>, nothing is thrown and each of the nine methods returns \<open>null\<close>. (A method
  whose arguments of \<open>fetch\<close> cannot be built throws before it sends anything. A reply
  that is not 2xx is rethrown as its \<open>detail\<close> when it has a true one, \<open>settle_detail\<close>, and
  every method calls \<open>fetch\<close> once, \<open>call_if_sends\<close>.)
\<close>

theorem network_failure_returns_null:
  "fst (getAtlassianConnectionStatus base (\<lambda>rs req. NetworkFailure) token rs)
     = (if printable token then Inr Null else Inl TypeError)
   \<and> fst (handleAtlassianCallback base (\<lambda>rs req. NetworkFailure) token cb rs)
     = (if printable token then Inr Null else Inl TypeError)
   \<and> fst (disconnectAtlassian base (\<lambda>rs req. NetworkFailure) token rs)
     = (if printable token then Inr Null else Inl TypeError)
   \<and> fst (getAtlassianSites base (\<lambda>rs req. NetworkFailure) token rs)
     = (if printable token then Inr Null else Inl TypeError)
   \<and> fst (searchJiraIssues base (\<lambda>rs req. NetworkFailure) token site q n rs)
     = (if printable token then Inr Null else Inl TypeError)
   \<and> fst (getConfluenceSpaces base (\<lambda>rs req. NetworkFailure) token site rs)
     = (if printable site \<and> printable token then Inr Null else Inl TypeError)
   \<and> fst (searchConfluencePages base (\<lambda>rs req. NetworkFailure) token site q k n rs)
     = (if printable token then Inr Null else Inl TypeError)
   \<and> fst (getJiraIssue base (\<lambda>rs req. NetworkFailure) token site key rs)
     = (if printable site \<and> printable key \<and> printable token
        then Inr Null else Inl TypeError)
   \<and> fst (getConfluenceContent base (\<lambda>rs req. NetworkFailure) token site cid rs)
     = (if printable site \<and> printable cid \<and> printable token
        then Inr Null else Inl TypeError)"
  unfolding getAtlassianConnectionStatus_def handleAtlassianCallback_def
    disconnectAtlassian_def getAtlassianSites_def searchJiraIssues_def
    getConfluenceSpaces_def searchConfluencePages_def getJiraIssue_def
    getConfluenceContent_def call_if_network_failure
  by simp

section \<open>Properties of the authorization URL and the state\<close>

lemma upper_hex_value: "n < 16 \<Longrightarrow> hex_value (upper_hex n) = n"
proof -
  have "\<forall>k \<in> set [0..<16]. hex_value (upper_hex k) = k" by code_simp
  then show "n < 16 \<Longrightarrow> hex_value (upper_hex n) = n" by simp
qed

lemma lower_hex_value: "n < 16 \<Longrightarrow> hex_value (lower_hex n) = n"
proof -
  have "\<forall>k \<in> set [0..<16]. hex_value (lower_hex k) = k" by code_simp
  then show "n < 16 \<Longrightarrow> hex_value (lower_hex n) = n" by simp
qed

lemma upper_hex_is: "n < 16 \<Longrightarrow> is_upper_hex (upper_hex n)"
proof -
  have "\<forall>k \<in> set [0..<16]. is_upper_hex (upper_hex k)" by code_simp
  then show "n < 16 \<Longrightarrow> is_upper_hex (upper_hex n)" by simp
qed

lemma lower_hex_in: "n < 16 \<Longrightarrow> lower_hex n \<in> set ''0123456789abcdef''"
proof -
  have "\<forall>k \<in> set [0..<16]. lower_hex k \<in> set ''0123456789abcdef''" by code_simp
  then show "n < 16 \<Longrightarrow> lower_hex n \<in> set ''0123456789abcdef''" by simp
qed
lemma of_char_lt_256: "(of_char c :: nat) < 256"
  by (cases c) simp

lemma char_div_mod: "char_of ((of_char c :: nat) div 16 * 16 + of_char c mod 16) = c"
  by simp

lemma plus_not_safe: "\<not> urlencoded_safe (CHR ''+'')" "\<not> urlencoded_safe (CHR ''%'')"
  by (simp_all add: urlencoded_safe_def)

lemma form_decode_safe: "c \<noteq> CHR ''+'' \<Longrightarrow> c \<noteq> CHR ''%'' \<Longrightarrow> form_decode (c # rest) = c # form_decode rest"
  by (induction "c # rest" arbitrary: rest rule: form_decode.induct) auto

lemma form_decode_plus: "form_decode (CHR ''+'' # rest) = CHR '' '' # form_decode rest"
  by (induction "CHR ''+'' # rest" arbitrary: rest rule: form_decode.induct) auto

lemma form_decode_byte: "form_decode (urlencoded_byte c @ rest) = c # form_decode rest"
proof -
  have d: "(of_char c :: nat) div 16 < 16" using of_char_lt_256 [of c] by arith
  have m: "(of_char c :: nat) mod 16 < 16" by simp
  consider "c = CHR '' ''" | "c \<noteq> CHR '' ''" "urlencoded_safe c"
    | "c \<noteq> CHR '' ''" "\<not> urlencoded_safe c" by blast
  then show ?thesis
  proof cases
    case 1
    then show ?thesis by (simp add: urlencoded_byte_def form_decode_plus)
  next
    case 2
    with plus_not_safe have "c \<noteq> CHR ''+''" "c \<noteq> CHR ''%''" by auto
    with 2 show ?thesis by (simp add: urlencoded_byte_def form_decode_safe)
  next
    case 3
    have "form_decode (CHR ''%'' # upper_hex (of_char c div 16) # upper_hex (of_char c mod 16) # rest)
          = char_of (hex_value (upper_hex (of_char c div 16)) * 16
                     + hex_value (upper_hex (of_char c mod 16))) # form_decode rest"
      by simp
    also have "\<dots> = c # form_decode rest"
      by (simp only: upper_hex_value [OF d] upper_hex_value [OF m] char_div_mod)
    finally show ?thesis using 3 by (simp add: urlencoded_byte_def)
  qed
qed

lemma form_decode_urlencoded: "form_decode (urlencoded s) = s"
  by (induction s) (simp_all add: urlencoded_def form_decode_byte)

lemma percent_encoded_byte:
  "percent_encoded (urlencoded_byte c @ rest) = percent_encoded rest"
proof -
  have d: "(of_char c :: nat) div 16 < 16" using of_char_lt_256 [of c] by arith
  have m: "(of_char c :: nat) mod 16 < 16" by simp
  show ?thesis
    using plus_not_safe
    by (auto simp: urlencoded_byte_def upper_hex_is [OF d] upper_hex_is [OF m])
qed

lemma percent_encoded_urlencoded: "percent_encoded (urlencoded s)"
  by (induction s) (simp_all add: urlencoded_def percent_encoded_byte)

lemma urlencoded_plain:
  "urlencoded ''audience'' = ''audience''"
  "urlencoded ''api.atlassian.com'' = ''api.atlassian.com''"
  "urlencoded ''client_id'' = ''client_id''"
  "urlencoded ''scope'' = ''scope''"
  "urlencoded ''redirect_uri'' = ''redirect_uri''"
  "urlencoded ''state'' = ''state''"
  "urlencoded ''response_type'' = ''response_type''"
  "urlencoded ''code'' = ''code''"
  "urlencoded ''prompt'' = ''prompt''"
  "urlencoded ''consent'' = ''consent''"
  by (simp_all add: urlencoded_def urlencoded_byte_def urlencoded_safe_def)

text \<open>
  C5. \<open>generateAtlassianOAuthURL\<close> returns the authorization URL followed by exactly the
  seven query parameters, in the order \<open>audience\<close>, \<open>client_id\<close>, \<open>scope\<close>, \<open>redirect_uri\<close>,
  \<open>state\<close>, \<open>response_type\<close>, \<open>prompt\<close>, with each value supplied by the caller
  form-encoded: its encoding consists of safe bytes, \<open>+\<close> and \<open>%XX\<close> only, and decodes
  back to the value. The function is a function of its four arguments alone.
\<close>

theorem generateAtlassianOAuthURL_shape:
  "generateAtlassianOAuthURL cid uri scp st =
     ''https://auth.atlassian.com/authorize?audience=api.atlassian.com''
     @ ''&client_id='' @ urlencoded cid
     @ ''&scope='' @ urlencoded scp
     @ ''&redirect_uri='' @ urlencoded uri
     @ ''&state='' @ urlencoded st
     @ ''&response_type=code&prompt=consent''
   \<and> percent_encoded (urlencoded cid) \<and> form_decode (urlencoded cid) = cid
   \<and> percent_encoded (urlencoded scp) \<and> form_decode (urlencoded scp) = scp
   \<and> percent_encoded (urlencoded uri) \<and> form_decode (urlencoded uri) = uri
   \<and> percent_encoded (urlencoded st) \<and> form_decode (urlencoded st) = st"
  by (simp add: generateAtlassianOAuthURL_def URLSearchParams_toString_def urlencoded_plain
      percent_encoded_urlencoded form_decode_urlencoded)

lemma unat_byte_lt: "unat (b :: 8 word) < 256"
  using unsigned_less [of b, where ?'a = nat] by simp

lemma hex_pair: "padStart 2 (CHR ''0'') (toString16 b)
   = [lower_hex (unat b div 16), lower_hex (unat b mod 16)]"
  by (simp add: padStart_def toString16_def lower_hex_def)

lemma hex_decode_pairs:
  "hex_decode (concat (map (\<lambda>byte. padStart 2 (CHR ''0'') (toString16 byte)) bs)) = bs"
proof (induction bs)
  case Nil
  show ?case by simp
next
  case (Cons b bs)
  have d: "unat b div 16 < 16" using unat_byte_lt [of b] by arith
  have m: "unat b mod 16 < 16" by simp
  have "(of_nat (unat b div 16 * 16 + unat b mod 16) :: 8 word) = b" by simp
  with Cons show ?case
    by (simp add: hex_pair lower_hex_value [OF d] lower_hex_value [OF m])
qed

lemma length_pairs:
  "length (concat (map (\<lambda>byte. padStart 2 (CHR ''0'') (toString16 byte)) bs)) = 2 * length bs"
  by (induction bs) (simp_all add: hex_pair)

lemma set_pairs:
  "set (concat (map (\<lambda>byte. padStart 2 (CHR ''0'') (toString16 byte)) bs))
     \<subseteq> set ''0123456789abcdef''"
proof (induction bs)
  case Nil
  show ?case by simp
next
  case (Cons b bs)
  have d: "unat b div 16 < 16" using unat_byte_lt [of b] by arith
  have m: "unat b mod 16 < 16" by simp
  from Cons lower_hex_in [OF d] lower_hex_in [OF m] show ?case
    by (simp add: hex_pair)
qed

text \<open>
  C8. Whatever bytes the random source gives, \<open>generateOAuthState\<close> returns 64 lower-case
  hexadecimal digits that are the encoding of those 32 bytes (decoding gives them
  back, so distinct byte arrays give distinct states). With the client id and the
  redirect URI configured, \<open>handleConnect\<close> writes that state to the \<open>localStorage\<close> slot
  \<open>atlassian_oauth_state\<close>, replacing what was there, and only then navigates to the
  authorization URL built with the same state. (The navigation is all that is left out
  when a configured value cannot be converted to a string.)
\<close>

theorem generateOAuthState_stored:
  "length (generateOAuthState entropy) = 64
   \<and> set (generateOAuthState entropy) \<subseteq> set ''0123456789abcdef''
   \<and> hex_decode (generateOAuthState entropy) = map entropy [0..<32]
   \<and> (truthy (clientId p) \<and> truthy (redirectUri p) \<longrightarrow>
        storage (handleConnect entropy p) ''atlassian_oauth_state''
          = Some (generateOAuthState entropy)
        \<and> events (handleConnect entropy p)
          = events p @ SetItem ''atlassian_oauth_state'' (generateOAuthState entropy)
              # (if printable (clientId p) \<and> printable (scope p) \<and> printable (redirectUri p)
                 then [Navigate (generateAtlassianOAuthURL (js_string (clientId p))
                                   (js_string (redirectUri p)) (js_string (scope p))
                                   (generateOAuthState entropy))]
                 else []))"
proof -
  have "length (generateOAuthState entropy)
        = 2 * length (getRandomValues entropy (replicate 32 0))"
    unfolding generateOAuthState_def by (rule length_pairs)
  then have 1: "length (generateOAuthState entropy) = 64"
    by (simp add: getRandomValues_def)
  have 2: "set (generateOAuthState entropy) \<subseteq> set ''0123456789abcdef''"
    unfolding generateOAuthState_def by (rule set_pairs)
  have "hex_decode (generateOAuthState entropy) = getRandomValues entropy (replicate 32 0)"
    unfolding generateOAuthState_def by (rule hex_decode_pairs)
  then have 3: "hex_decode (generateOAuthState entropy) = map entropy [0..<32]"
    by (simp add: getRandomValues_def)
  have 4: "truthy (clientId p) \<and> truthy (redirectUri p) \<longrightarrow>
        storage (handleConnect entropy p) ''atlassian_oauth_state''
          = Some (generateOAuthState entropy)
        \<and> events (handleConnect entropy p)
          = events p @ SetItem ''atlassian_oauth_state'' (generateOAuthState entropy)
              # (if printable (clientId p) \<and> printable (scope p) \<and> printable (redirectUri p)
                 then [Navigate (generateAtlassianOAuthURL (js_string (clientId p))
                                   (js_string (redirectUri p)) (js_string (scope p))
                                   (generateOAuthState entropy))]
                 else [])"
    by (simp add: handleConnect_def setItem_def navigate_def Let_def clientId_def
        redirectUri_def scope_def)
  from 1 2 3 4 show ?thesis by blast
qed

theorem generateOAuthState_stored_witness:
  "truthy (clientId example_panel) \<and> truthy (redirectUri example_panel)
   \<and> storage (handleConnect (\<lambda>i. of_nat (i * 8 + 3)) example_panel) ''atlassian_oauth_state''
       = Some ''030b131b232b333b434b535b636b737b838b939ba3abb3bbc3cbd3dbe3ebf3fb''
   \<and> events (handleConnect (\<lambda>i. of_nat (i * 8 + 3)) example_panel)
       = [SetItem ''atlassian_oauth_state''
            ''030b131b232b333b434b535b636b737b838b939ba3abb3bbc3cbd3dbe3ebf3fb'',
          Navigate (generateAtlassianOAuthURL ''abc''
            ''http://localhost:5173/settings/connections''
            ''read:jira-user read:jira-work read:confluence-content.all offline_access''
            ''030b131b232b333b434b535b636b737b838b939ba3abb3bbc3cbd3dbe3ebf3fb'')]"
proof -
  have c: "truthy (clientId example_panel) \<and> truthy (redirectUri example_panel)"
    by (simp add: example_panel_def clientId_def redirectUri_def opt_member_def js_or_def)
  have g: "generateOAuthState (\<lambda>i. of_nat (i * 8 + 3))
        = ''030b131b232b333b434b535b636b737b838b939ba3abb3bbc3cbd3dbe3ebf3fb''"
    by code_simp
  have v: "js_string (clientId example_panel) = ''abc''"
    "js_string (redirectUri example_panel) = ''http://localhost:5173/settings/connections''"
    "js_string (scope example_panel)
       = ''read:jira-user read:jira-work read:confluence-content.all offline_access''"
    "events example_panel = []"
    "printable (clientId example_panel) \<and> printable (scope example_panel)
       \<and> printable (redirectUri example_panel)"
    by (simp_all add: example_panel_def clientId_def redirectUri_def scope_def
        opt_member_def js_or_def)
  from c generateOAuthState_stored [of "\<lambda>i. of_nat (i * 8 + 3)" example_panel] g v
  show ?thesis by simp
qed

section \<open>Properties of the callback handlers\<close>

lemma handleAtlassianCallback_sent:
  "printable token \<Longrightarrow>
   snd (handleAtlassianCallback base server token cb rs)
     = rs @ [\<lparr>req_method = ''POST'', req_url = base @ ''/atlassian/connection/callback'',
              req_headers = json_headers token, req_json = Some cb\<rparr>]"
  by (simp add: handleAtlassianCallback_def call_if_def call_def fetch_def
      ATLASSIAN_BASE_URL_def)

lemma loadConnectionStatus_sent:
  "\<exists>ext. sent (loadConnectionStatus base server p) = sent p @ ext"
  by (auto simp: loadConnectionStatus_def getAtlassianConnectionStatus_def call_if_def
      call_def fetch_def toast_def Let_def split: sum.splits)

lemma page_mismatch:
  assumes "truthy (get_param b ''code'')" and "truthy (get_param b ''state'')"
    and "\<not> truthy (get_param b ''error'')"
    and "get_param b ''state'' \<noteq> getItem ''atlassian_oauth_state'' b"
  shows "handleOAuthCallback_page base server b
         = goto ''/settings/connections''
             (toast (ToastError ''OAuth state verification failed'') b)"
  using assms by (simp add: handleOAuthCallback_page_def Let_def)

lemma page_mismatch_effects:
  assumes "truthy (get_param b ''code'')" and "truthy (get_param b ''state'')"
    and "\<not> truthy (get_param b ''error'')"
    and "get_param b ''state'' \<noteq> getItem ''atlassian_oauth_state'' b"
  shows "sent (handleOAuthCallback_page base server b) = sent b"
    and "query (handleOAuthCallback_page base server b) = []"
    and "events (handleOAuthCallback_page base server b)
         = events b @ [ToastError ''OAuth state verification failed'',
                       ReplaceUrl ''/settings/connections'']"
    and "storage (handleOAuthCallback_page base server b) = storage b"
  by (simp_all add: page_mismatch [OF assms] goto_def toast_def)

lemma page_match:
  assumes "truthy (get_param b ''code'')" and "truthy (get_param b ''state'')"
    and "\<not> truthy (get_param b ''error'')"
    and "get_param b ''state'' = getItem ''atlassian_oauth_state'' b"
  shows "sent (handleOAuthCallback_page base server b)
         = sent b @ [callback_request base (localStorage_token b) (get_param b ''code'')
                       (get_param b ''state'')]"
    and "storage (handleOAuthCallback_page base server b) ''atlassian_oauth_state'' = None"
    and "query (handleOAuthCallback_page base server b) = []"
  using assms printable_token [of b]
  by (auto simp: handleOAuthCallback_page_def Let_def handleAtlassianCallback_def call_if_def
      call_def fetch_def removeItem_def goto_def toast_def reload_def localStorage_token_def
      callback_request_def ATLASSIAN_BASE_URL_def split: sum.splits)

lemma page_exchange_only_on_match:
  assumes "sent (handleOAuthCallback_page base server b) \<noteq> sent b"
  shows "get_param b ''state'' = getItem ''atlassian_oauth_state'' b"
  using assms
  by (auto simp: handleOAuthCallback_page_def Let_def goto_def toast_def split: if_splits)

lemma panel_exchange:
  assumes "truthy (get_param p ''code'')" and "truthy (get_param p ''state'')"
    and "\<not> truthy (get_param p ''error'')"
  shows "take (Suc (length (sent p))) (sent (handleOAuthCallback_panel base server p))
         = sent p @ [callback_request base (localStorage_token p) (get_param p ''code'')
                       (get_param p ''state'')]"
proof -
  let ?req = "callback_request base (localStorage_token p) (get_param p ''code'')
                       (get_param p ''state'')"
  let ?r = "fst (handleAtlassianCallback base server (localStorage_token p)
                 (Obj [(''code'', get_param p ''code''), (''state'', get_param p ''state'')]) (sent p))"
  have s: "snd (handleAtlassianCallback base server (localStorage_token p)
                 (Obj [(''code'', get_param p ''code''), (''state'', get_param p ''state'')]) (sent p))
           = sent p @ [?req]"
    by (simp add: handleAtlassianCallback_sent printable_token callback_request_def)
  show ?thesis
  proof (cases ?r)
    case (Inl e)
    with assms s show ?thesis
      by (simp add: handleOAuthCallback_panel_def Let_def split_beta localStorage_token_def
          replaceState_pathname_def toast_def)
  next
    case (Inr v)
    obtain ext where "sent (loadConnectionStatus base server
        (replaceState_pathname (toast (ToastSuccess ''Atlassian account connected successfully'')
           (p\<lparr>loading := True, sent := sent p @ [?req]\<rparr>))))
        = (sent p @ [?req]) @ ext"
      using loadConnectionStatus_sent [of base server "replaceState_pathname (toast (ToastSuccess ''Atlassian account connected successfully'')
           (p\<lparr>loading := True, sent := sent p @ [?req]\<rparr>))"]
      by (auto simp: replaceState_pathname_def toast_def)
    with assms s Inr show ?thesis
      by (simp add: handleOAuthCallback_panel_def Let_def split_beta localStorage_token_def)
  qed
qed

lemma page_replay_rejected:
  assumes "truthy (get_param b ''code'')" and "truthy (get_param b ''state'')"
    and "\<not> truthy (get_param b ''error'')"
    and "get_param b ''state'' = getItem ''atlassian_oauth_state'' b"
  shows "sent (handleOAuthCallback_page base server
           ((handleOAuthCallback_page base server b)\<lparr>query := query b\<rparr>))
         = sent (handleOAuthCallback_page base server b)"
proof -
  let ?b = "(handleOAuthCallback_page base server b)\<lparr>query := query b\<rparr>"
  have p: "get_param ?b k = get_param b k" for k
    by (simp add: get_param_def)
  have "getItem ''atlassian_oauth_state'' ?b = Null"
    using page_match(2) [OF assms, of base server] by (simp add: getItem_def)
  moreover from assms(2) have "get_param b ''state'' \<noteq> Null" by auto
  ultimately have "get_param ?b ''state'' \<noteq> getItem ''atlassian_oauth_state'' ?b"
    by (simp add: p)
  with assms(1-3) have "sent (handleOAuthCallback_page base server ?b) = sent ?b"
    by (intro page_mismatch_effects(1)) (simp_all add: p)
  then show ?thesis by simp
qed

lemma panel_success_toast_on_network_failure:
  assumes "truthy (get_param p ''code'')" and "truthy (get_param p ''state'')"
    and "\<not> truthy (get_param p ''error'')"
  shows "ToastSuccess ''Atlassian account connected successfully''
           \<in> set (events (handleOAuthCallback_panel base (\<lambda>rs req. NetworkFailure) p))"
  using assms printable_token [of p]
  by (auto simp: handleOAuthCallback_panel_def Let_def handleAtlassianCallback_def call_if_def
      call_def fetch_def settle_def json_or_throw_def err_detail_def loadConnectionStatus_def
      getAtlassianConnectionStatus_def replaceState_pathname_def toast_def
      localStorage_token_def)

text \<open>
  C1. Claimed: on a return with \<open>code\<close> and \<open>state\<close>, the token exchange is made only if
  the returned state equals the stored one. The handler of the page keeps to it
  (\<open>page_exchange_only_on_match\<close>, \<open>page_mismatch_effects\<close>). The handler of the panel,
  mounted on the same page, does not compare at all: with \<open>S\<close> stored and \<open>S2\<close> returned,
  the first request it sends is the exchange, carrying \<open>S2\<close>.
\<close>

theorem panel_exchanges_on_state_mismatch:
  "getItem ''atlassian_oauth_state'' (example_panel\<lparr>query := [(''code'', ''C''), (''state'', ''S2'')]\<rparr>)
     = Str ''S''
   \<and> take 1 (sent (handleOAuthCallback_panel base server
                (example_panel\<lparr>query := [(''code'', ''C''), (''state'', ''S2'')]\<rparr>)))
     = [callback_request base (Str ''t'') (Str ''C'') (Str ''S2'')]"
proof -
  let ?p = "example_panel\<lparr>query := [(''code'', ''C''), (''state'', ''S2'')]\<rparr>"
  have "take (Suc (length (sent ?p))) (sent (handleOAuthCallback_panel base server ?p))
         = sent ?p @ [callback_request base (localStorage_token ?p) (get_param ?p ''code'')
                       (get_param ?p ''state'')]"
    by (rule panel_exchange) (simp_all add: example_panel_def get_param_def)
  then show ?thesis
    by (simp add: example_panel_def get_param_def getItem_def localStorage_token_def)
qed

text \<open>
  C2. Claimed: every attempt that compares the returned state with the stored one
  clears the slot, whether the comparison succeeds or fails. On a match the page does
  clear it, and a replay is then refused (\<open>page_match\<close>, \<open>page_replay_rejected\<close>). On a
  mismatch the handler returns before \<open>localStorage.removeItem\<close>: the stored state \<open>S\<close>
  is still there afterwards, and nothing was removed.
\<close>

theorem page_keeps_state_on_mismatch:
  "storage (handleOAuthCallback_page base server example_return) ''atlassian_oauth_state''
     = Some ''S''
   \<and> events (handleOAuthCallback_page base server example_return)
     = [ToastError ''OAuth state verification failed'', ReplaceUrl ''/settings/connections'']"
  by (simp add: handleOAuthCallback_page_def example_return_def get_param_def getItem_def
      goto_def toast_def)

section \<open>Properties of the text extraction\<close>

lemma forEach_child_runs:
  assumes "member node ''type'' = Inr (Str ''paragraph'') \<or> member node ''type'' = Inr (Str ''heading'')"
    and "\<forall>s \<in> set runs. s \<noteq> []"
  shows "forEach_child node (map (\<lambda>s. Obj [(''type'', Str ''text''), (''text'', Str s)]) runs) acc
         = Inr (acc @ concat (map (\<lambda>s. s @ newline) runs))"
  using assms by (induction runs arbitrary: acc) (auto simp: isArray_def)

text \<open>
  C4. Claimed: one newline is inserted after the children of each paragraph or heading.
  The code appends the newline inside the loop over the children, so a paragraph of
  \<open>n\<close> runs of text gets \<open>n\<close> newlines, one after each run (\<open>forEach_child_runs\<close>). For the
  paragraph \<open>Hello\<close> \<open>world\<close>, whose second word is bold and therefore a run of its own,
  the result has a line break between the two words.
\<close>

theorem extractTextFromADF_newline_between_runs:
  "extractTextFromADF example_doc = Inr (''Hello '' @ newline @ ''world'')"
  by code_simp




section \<open>Properties of the formatting of an issue\<close>

text \<open>
  C6, as claimed, fails: an issue without a status is not rendered, the read of
  \<open>fullIssue.fields.status.name\<close> throws.
\<close>

theorem jira_content_without_status_fails:
  "jira_content example_issue_no_status = Inl TypeError"
  by (simp add: jira_content_def example_issue_no_status_def and_then_def to_string_def)

text \<open>
  C6, amended. For a fetched issue that has its fields, a status and a type, the
  rendering fails only when a value it prints cannot be converted to a string or when
  the description cannot be rendered. Otherwise the content is the heading with the
  key and the summary, the status line, the type line, the assignee line if and only
  if there is an assignee, the priority line if and only if there is a priority, and
  the description section; an absent assignee or priority never makes the rendering
  fail.
\<close>

theorem jira_content_lines:
  assumes "member fullIssue ''fields'' = Inr flds"
    and "member flds ''status'' = Inr status"
    and "member status ''name'' = Inr status_name"
    and "member flds ''issuetype'' = Inr issuetype"
    and "member issuetype ''name'' = Inr issuetype_name"
  shows "jira_content fullIssue =
     (if printable (opt_member fullIssue ''key'') \<and> printable (opt_member flds ''summary'')
         \<and> printable status_name \<and> printable issuetype_name
         \<and> (truthy (opt_member flds ''assignee'')
              \<longrightarrow> printable (opt_member (opt_member flds ''assignee'') ''displayName''))
         \<and> (truthy (opt_member flds ''priority'')
              \<longrightarrow> printable (opt_member (opt_member flds ''priority'') ''name''))
      then
        (case jira_description (opt_member flds ''description'') of
           Inl e \<Rightarrow> Inl e
         | Inr description \<Rightarrow>
             Inr (''## ['' @ js_string (opt_member fullIssue ''key'') @ ''] ''
                  @ js_string (opt_member flds ''summary'') @ newline @ newline
                  @ ''**Status:** '' @ js_string status_name @ newline
                  @ ''**Type:** '' @ js_string issuetype_name @ newline
                  @ (if truthy (opt_member flds ''assignee'')
                     then ''**Assignee:** ''
                          @ js_string (opt_member (opt_member flds ''assignee'')
                                         ''displayName'')
                          @ newline
                     else [])
                  @ (if truthy (opt_member flds ''priority'')
                     then ''**Priority:** ''
                          @ js_string (opt_member (opt_member flds ''priority'') ''name'')
                          @ newline
                     else [])
                  @ newline @ ''### Description'' @ newline @ description))
      else Inl TypeError)"
proof -
  have m: "member v k = Inr (opt_member v k)" if "member v k' = Inr x" for v k k' x
    using that by (cases v) (simp_all add: opt_member_def)
  have t: "member v k = Inr (opt_member v k)" if "truthy v" for v k
    using that by (cases v) (simp_all add: opt_member_def)
  note f = m [OF assms(2)]
  show ?thesis
    using assms
    by (simp add: jira_content_def and_then_def to_string_def m [OF assms(1)] f t
        split: sum.splits)
qed

theorem jira_content_lines_witness:
  "jira_content example_issue =
     Inr (''## [OPS-7] Login fails'' @ newline @ newline
          @ ''**Status:** Open'' @ newline
          @ ''**Type:** Bug'' @ newline
          @ newline @ ''### Description'' @ newline @ ''No description'')
   \<and> jira_content example_issue_assigned =
     Inr (''## [OPS-8] Slow search'' @ newline @ newline
          @ ''**Status:** In Progress'' @ newline
          @ ''**Type:** Task'' @ newline
          @ ''**Assignee:** Ada'' @ newline
          @ ''**Priority:** High'' @ newline
          @ newline @ ''### Description'' @ newline @ ''Takes a minute.'')"
  using jira_content_lines [of example_issue
      "Obj [(''summary'', Str ''Login fails''),
            (''status'', Obj [(''name'', Str ''Open'')]),
            (''issuetype'', Obj [(''name'', Str ''Bug'')]),
            (''assignee'', Null),
            (''description'', Null)]"
      "Obj [(''name'', Str ''Open'')]" "Str ''Open''"
      "Obj [(''name'', Str ''Bug'')]" "Str ''Bug''"]
    jira_content_lines [of example_issue_assigned
      "Obj [(''summary'', Str ''Slow search''),
            (''status'', Obj [(''name'', Str ''In Progress'')]),
            (''issuetype'', Obj [(''name'', Str ''Task'')]),
            (''assignee'', Obj [(''displayName'', Str ''Ada'')]),
            (''priority'', Obj [(''name'', Str ''High'')]),
            (''description'', Str ''Takes a minute.'')]"
      "Obj [(''name'', Str ''In Progress'')]" "Str ''In Progress''"
      "Obj [(''name'', Str ''Task'')]" "Str ''Task''"]
  by (simp add: example_issue_def example_issue_assigned_def opt_member_def
      jira_description_def)

section \<open>Properties of the search\<close>

lemma trim_login: "trim ''login'' = ''login''"
  by code_simp

lemma confluence_hard_failure:
  assumes "selectedType m = Confluence" and "truthy (selectedSite m)"
    and "trim (searchQuery m) \<noteq> []" and "d \<noteq> []"
  shows "events (performSearch base
           (\<lambda>rs req. Response False (Some (Obj [(''detail'', Str d)]))) m)
         = events m @ [ToastError ''Search failed'']
    \<and> noConfluenceAccess (performSearch base
           (\<lambda>rs req. Response False (Some (Obj [(''detail'', Str d)]))) m)
         = noConfluenceAccess m"
proof -
  from assms(2) obtain sid where s: "member (selectedSite m) ''id'' = Inr sid"
    by (cases "selectedSite m") auto
  from assms s show ?thesis
    by (auto simp: performSearch_def searchConfluencePages_def call_if_def
        call_def fetch_def settle_def json_or_throw_def err_detail_def and_then_def
        Let_def toast_def printable_token)
qed

text \<open>
  C7, as claimed, fails for a Jira search: the reply \<open>{error: "no_access"}\<close> leaves the
  results empty and raises nothing, but the flag is not set.
\<close>

theorem jira_no_access_sets_no_flag:
  "noConfluenceAccess (performSearch ''/api/v1'' no_access_server example_picker) = False
   \<and> searchResults (performSearch ''/api/v1'' no_access_server example_picker) = Arr []
   \<and> events (performSearch ''/api/v1'' no_access_server example_picker) = []"
  by (simp add: performSearch_def example_picker_def no_access_server_def trim_login
      searchJiraIssues_def call_if_def call_def fetch_def settle_def json_or_throw_def
      and_then_def js_or_def localStorage_token_def)

text \<open>
  C7, amended. For a Confluence search whose reply has \<open>error\<close> equal to \<open>no_access\<close>:
  the results stay empty, the flag \<open>noConfluenceAccess\<close> is set, no error is shown and the
  search ends. Listing the spaces with such a reply gives the empty list of spaces, again
  without an error shown. A hard failure is told apart: it shows the error toast and
  leaves the flag as it was (\<open>confluence_hard_failure\<close>).
\<close>

theorem confluence_no_access:
  assumes "selectedType m = Confluence" and "truthy (selectedSite m)"
    and "trim (searchQuery m) \<noteq> []"
    and "member result ''error'' = Inr (Str ''no_access'')"
  shows "searchResults (performSearch base (\<lambda>rs req. Response True (Some result)) m) = Arr []
    \<and> noConfluenceAccess (performSearch base (\<lambda>rs req. Response True (Some result)) m)
    \<and> events (performSearch base (\<lambda>rs req. Response True (Some result)) m) = events m
    \<and> \<not> picker_loading (performSearch base (\<lambda>rs req. Response True (Some result)) m)
    \<and> confluenceSpaces (loadConfluenceSpaces base (\<lambda>rs req. Response True (Some result)) m)
        = Arr []
    \<and> events (loadConfluenceSpaces base (\<lambda>rs req. Response True (Some result)) m)
        = events m"
proof -
  from assms(2) obtain sid where s: "member (selectedSite m) ''id'' = Inr sid"
    by (cases "selectedSite m") auto
  from assms(4) have r: "\<exists>x. member result ''results'' = Inr x"
    by (cases result) auto
  from assms s r show ?thesis
    by (auto simp: performSearch_def loadConfluenceSpaces_def searchConfluencePages_def
        getConfluenceSpaces_def call_if_def call_def fetch_def settle_def json_or_throw_def
        and_then_def Let_def printable_token)
qed

theorem confluence_no_access_witness:
  "noConfluenceAccess (performSearch ''/api/v1'' no_access_server
      (example_picker\<lparr>selectedType := Confluence\<rparr>))
   \<and> searchResults (performSearch ''/api/v1'' no_access_server
      (example_picker\<lparr>selectedType := Confluence\<rparr>)) = Arr []"
proof -
  have "selectedType (example_picker\<lparr>selectedType := Confluence\<rparr>) = Confluence"
    and "truthy (selectedSite (example_picker\<lparr>selectedType := Confluence\<rparr>))"
    and "trim (searchQuery (example_picker\<lparr>selectedType := Confluence\<rparr>)) \<noteq> []"
    and "member (Obj [(''error'', Str ''no_access'')]) ''error'' = Inr (Str ''no_access'')"
    by (simp_all add: example_picker_def trim_login)
  from confluence_no_access [OF this, of "''/api/v1''"] show ?thesis
    by (simp add: no_access_server_def)
qed

section \<open>Properties of the formatting of a page\<close>

lemma set_strip_tags: "set (strip_tags s) \<subseteq> set s"
proof (induction s rule: strip_tags.induct)
  case 1
  show ?case by simp
next
  case (2 c cs)
  have "set (tl xs) \<subseteq> set xs" for xs :: string
    by (cases xs) auto
  moreover have "set (dropWhile (\<lambda>d. d \<noteq> CHR ''>'') cs) \<subseteq> set cs"
    by (auto dest: set_dropWhileD)
  ultimately have "set (tl (dropWhile (\<lambda>d. d \<noteq> CHR ''>'') cs)) \<subseteq> set cs"
    by blast
  with 2 show ?case by auto
qed

lemma strip_tags_no_tag: "\<not> has_tag (strip_tags s)"
proof (induction s rule: strip_tags.induct)
  case 1
  show ?case by simp
next
  case (2 c cs)
  with set_strip_tags [of cs] show ?case by auto
qed

lemma strip_tags_id: "\<not> has_tag s \<Longrightarrow> strip_tags s = s"
  by (induction s) auto

lemma replace_all_id: "\<not> contains pat s \<Longrightarrow> replace_all pat rep s = s"
  by (induction s) auto

lemma html_to_text_plain:
  "\<not> has_tag s \<Longrightarrow> \<not> contains ''&nbsp;'' s \<Longrightarrow> \<not> contains ''&amp;'' s \<Longrightarrow>
   \<not> contains ''&lt;'' s \<Longrightarrow> \<not> contains ''&gt;'' s \<Longrightarrow> html_to_text s = s"
  by (simp add: html_to_text_def strip_tags_id replace_all_id)

lemma html_to_text_examples:
  "html_to_text ''<p>A &amp; B</p>'' = ''A & B''"
  "html_to_text ''&nbsp;'' = '' ''"
  "html_to_text ''&amp;'' = ''&''"
  "html_to_text ''&lt;'' = ''<''"
  "html_to_text ''&gt;'' = ''>''"
  "html_to_text ''&quot;'' = ''&quot;''"
  by (simp_all add: html_to_text_def)

lemma no_body_notice:
  assumes "member fullPage ''body'' = Inr body" and "\<not> truthy body"
  shows "and_then (page_body fullPage) body_text = Inr ''No content available''"
  using assms by (simp add: page_body_def body_text_def and_then_def)

lemma page_body_storage:
  assumes "member fullPage ''body'' = Inr body" and "truthy body"
    and "member body ''storage'' = Inr storage_part" and "truthy storage_part"
    and "member storage_part ''value'' = Inr v" and "truthy v"
  shows "page_body fullPage = Inr v"
  using assms by (simp add: page_body_def and_then_def)

lemma page_body_value:
  assumes "member fullPage ''body'' = Inr body" and "truthy body"
    and "member body ''storage'' = Inr storage_part" and "\<not> truthy storage_part"
    and "member body ''value'' = Inr v" and "truthy v"
  shows "page_body fullPage = Inr v"
  using assms by (simp add: page_body_def and_then_def)

lemma confluence_content_ends:
  assumes "confluence_content f fullPage = Inr content"
  shows "\<exists>pre rendered. content = pre @ rendered
           \<and> and_then (page_body fullPage) body_text = Inr rendered"
  using assms
  by (auto simp: confluence_content_def and_then_def split: sum.splits if_splits)

lemma confluence_content_example:
  "confluence_content f example_page = Inr (''## Runbook'' @ newline @ newline @ ''A & B'')"
  "confluence_content f example_page_no_body
     = Inr (''## Runbook'' @ newline @ newline @ ''No content available'')"
  by (simp_all add: confluence_content_def example_page_def example_page_no_body_def
      and_then_def to_string_def page_body_def body_text_def html_to_text_examples)

lemma decode_once_escaped:
  "decode_once (strip_tags ''<p>Write &amp;lt;b&amp;gt; for bold</p>'')
     = ''Write &lt;b&gt; for bold''"
  by simp

text \<open>
  C9. Claimed: the tags are removed and the four named entities are decoded. The tags
  are removed (\<open>strip_tags_no_tag\<close>), the body \<open><p>A &amp; B</p>\<close> is rendered as \<open>A & B\<close>
  and a page without a body ends with the notice (\<open>confluence_content_example\<close>). But the
  code replaces \<open>&amp;\<close> before \<open>&lt;\<close> and \<open>&gt;\<close>, so the \<open>&\<close> it has just produced is
  decoded a second time: a page that shows the markup \<open><b>\<close> as text, stored as
  \<open>&amp;lt;b&amp;gt;\<close>, whose decoded text is \<open>&lt;b&gt;\<close> (\<open>decode_once_escaped\<close>), is
  rendered with the tag \<open><b>\<close> in it.
\<close>

theorem confluence_content_decodes_twice:
  "confluence_content f example_page_escaped
     = Inr (''## Escapes'' @ newline @ newline @ ''Write <b> for bold'')"
  by (simp add: confluence_content_def example_page_escaped_def and_then_def to_string_def
      page_body_def body_text_def html_to_text_def)

end
